theory Spec2Isabelle
  imports Main
begin

section \<open>The relocation workflow of \<open>CollectionVersionMoveViewSet\<close>\<close>

text \<open>
  This theory embeds \<open>CollectionVersionMoveViewSet.move_content\<close>, \<open>_add_content\<close> and
  \<open>_remove_content\<close> of \<open>galaxy_ng/app/api/v3/viewsets/collection.py\<close>. The view reads
  three tables through the Django ORM, raises REST framework exceptions, and submits two
  tasks to the Pulp task queue. Exceptions are values of a sum type, the database and the
  queue are an explicit state that every operation takes and returns.
\<close>

subsection \<open>Strings\<close>

text \<open>Python's \<open>sep.join(parts)\<close>.\<close>

fun join :: "string \<Rightarrow> string list \<Rightarrow> string" where
  "join sep [] = []"
| "join sep [x] = x"
| "join sep (x # y # ys) = x @ sep @ join sep (y # ys)"

text \<open>Python's \<open>sub in s\<close> on strings: \<open>sub\<close> occurs in \<open>s\<close> as a contiguous run.\<close>

fun str_contains :: "string \<Rightarrow> string \<Rightarrow> bool" where
  "str_contains sub [] = (sub = [])"
| "str_contains sub (c # cs) = (take (length sub) (c # cs) = sub \<or> str_contains sub cs)"

text \<open>
  Python's \<open>int(s)\<close> on a string of decimal digits, which is what Django's
  \<open>HttpResponse\<close> applies to the \<open>status\<close> argument it is given. Anything else is
  \<open>None\<close> (Django raises \<open>TypeError\<close> there).
\<close>

definition digit_value :: "char \<Rightarrow> nat option" where
  "digit_value c =
     (let n = (of_char c :: nat) in if 48 \<le> n \<and> n \<le> 57 then Some (n - 48) else None)"

fun int_of_digits :: "nat \<Rightarrow> string \<Rightarrow> nat option" where
  "int_of_digits acc [] = Some acc"
| "int_of_digits acc (c # cs) =
     (case digit_value c of
        None \<Rightarrow> None
      | Some d \<Rightarrow> int_of_digits (10 * acc + d) cs)"

definition py_int :: "string \<Rightarrow> nat option" where
  "py_int s = (if s = [] then None else int_of_digits 0 s)"

subsection \<open>Tables\<close>

text \<open>
  A row of \<open>pulp_ansible.app.models.CollectionVersion\<close>: its primary key and the three
  fields the view filters on.
\<close>

record collection_version =
  cv_pk :: nat
  cv_namespace :: string
  cv_name :: string
  cv_version :: string

text \<open>
  A row of \<open>AnsibleDistribution\<close>: the path it is published under and its repository.
  The repository is a nullable foreign key: a distribution can be without one, and then
  \<open>.repository\<close> is Python's \<open>None\<close>. A repository object is identified with its primary
  key, so two distributions of one repository read the same content.
\<close>

record ansible_distribution =
  base_path :: string
  repository :: "nat option"

text \<open>
  Modelled from the spec: the Repository Store, that is Pulp's \<open>Repository\<close> and
  \<open>RepositoryVersion\<close>, which the view uses through \<open>latest_version().content\<close> and does
  not declare. Every repository has a sequence of immutable versions, each a set of
  content primary keys (here a list), and its current version is the latest of the
  sequence. \<open>version_history d r\<close> lists the versions appended to repository \<open>r\<close> after
  its initial, empty one.
\<close>

record database =
  collection_versions :: "collection_version list"
  distributions :: "ansible_distribution list"
  version_history :: "nat \<Rightarrow> nat list list"

definition latest_version_content :: "database \<Rightarrow> nat \<Rightarrow> nat list" where
  "latest_version_content d r =
     (case version_history d r of
        [] \<Rightarrow> []
      | v # vs \<Rightarrow> last (v # vs))"

text \<open>
  Django's \<open>Model.objects.get(...)\<close>: the one row that matches, \<open>DoesNotExist\<close> when none
  does, \<open>MultipleObjectsReturned\<close> when several do.
\<close>

datatype 'a lookup = DoesNotExist | MultipleObjectsReturned | Found 'a

definition objects_get :: "('a \<Rightarrow> bool) \<Rightarrow> 'a list \<Rightarrow> 'a lookup" where
  "objects_get p rows =
     (case filter p rows of
        [] \<Rightarrow> DoesNotExist
      | [x] \<Rightarrow> Found x
      | x # y # ys \<Rightarrow> MultipleObjectsReturned)"

text \<open>
  \<open>obj in queryset\<close>: the queryset is iterated and its rows are compared with \<open>obj\<close> by
  \<open>Model.__eq__\<close>, that is by primary key.
\<close>

definition queryset_contains :: "collection_version \<Rightarrow> collection_version list \<Rightarrow> bool" where
  "queryset_contains obj qs = (cv_pk obj \<in> set (map cv_pk qs))"

subsection \<open>Exceptions and responses\<close>

text \<open>
  The exceptions that leave \<open>move_content\<close>. \<open>NotFound\<close> and \<open>APIException\<close> are the
  REST framework's, each with its \<open>detail\<close> message; \<open>MultipleObjectsReturnedError\<close> is
  Django's, which the view's \<open>except ObjectDoesNotExist\<close> clauses do not catch;
  \<open>AttributeError\<close> is Python's, raised when \<open>latest_version()\<close> is called on \<open>None\<close>.
\<close>

datatype api_exception =
    NotFound string
  | APIException string
  | MultipleObjectsReturnedError
  | AttributeError

text \<open>
  The HTTP status of the response an exception becomes.
  \<open>rest_framework.exceptions\<close> declares \<open>NotFound.status_code = 404\<close> and
  \<open>APIException.status_code = 500\<close>; an exception that is not an \<open>APIException\<close> is
  answered by Django with 500.
\<close>

fun exception_status_code :: "api_exception \<Rightarrow> nat" where
  "exception_status_code (NotFound detail) = 404"
| "exception_status_code (APIException detail) = 500"
| "exception_status_code MultipleObjectsReturnedError = 500"
| "exception_status_code AttributeError = 500"

fun is_NotFound :: "api_exception \<Rightarrow> bool" where
  "is_NotFound (NotFound detail) = True"
| "is_NotFound e = False"

text \<open>\<open>Response(data=..., status=...)\<close>: the body as a dictionary in key order, and the
  status as the view passes it.\<close>

record response =
  data :: "(string \<times> nat) list"
  status :: string

definition response_status_code :: "response \<Rightarrow> nat option" where
  "response_status_code r = py_int (status r)"

subsection \<open>The task queue\<close>

datatype task_name = add_content_to_repository | remove_content_from_repository

datatype task_state = Waiting | Running | Completed | Failed

text \<open>
  Modelled from the spec: the Reservation Task Queue, that is Pulp's
  \<open>enqueue_with_reservation\<close>, which the view imports: \<open>submit(jobName, reservationKeys,
  args)\<close> records the job and returns its handle at once. The queue is the list of tasks
  in the order of their submission; a handle is the position of the task in it.
\<close>

record task =
  task_id :: nat
  task_func :: task_name
  task_locks :: "nat list"
  task_args :: "nat \<times> nat"
  task_progress :: task_state

datatype query =
    Query_CollectionVersion_get string string string
  | Query_AnsibleDistribution_get string
  | Query_CollectionVersion_filter_content nat

text \<open>
  What a request can observe and change: the database, the submitted tasks, and the
  queries the request has issued, oldest first.
\<close>

record state =
  db :: database
  tasks :: "task list"
  queries :: "query list"

definition enqueue_with_reservation ::
    "task_name \<Rightarrow> nat list \<Rightarrow> nat \<times> nat \<Rightarrow> state \<Rightarrow> task \<times> state" where
  "enqueue_with_reservation func locks args s =
     (let t = \<lparr>task_id = length (tasks s), task_func = func, task_locks = locks,
               task_args = args, task_progress = Waiting\<rparr>
      in (t, s\<lparr>tasks := tasks s @ [t]\<rparr>))"

subsection \<open>The queries of the view\<close>

text \<open>\<open>CollectionVersion.objects.get(namespace=..., name=..., version=...)\<close>\<close>

definition CollectionVersion_get ::
    "string \<Rightarrow> string \<Rightarrow> string \<Rightarrow> state \<Rightarrow> collection_version lookup \<times> state" where
  "CollectionVersion_get ns n v s =
     (objects_get (\<lambda>c. cv_namespace c = ns \<and> cv_name c = n \<and> cv_version c = v)
        (collection_versions (db s)),
      s\<lparr>queries := queries s @ [Query_CollectionVersion_get ns n v]\<rparr>)"

text \<open>\<open>AnsibleDistribution.objects.get(base_path=...)\<close>\<close>

definition AnsibleDistribution_get ::
    "string \<Rightarrow> state \<Rightarrow> ansible_distribution lookup \<times> state" where
  "AnsibleDistribution_get path s =
     (objects_get (\<lambda>d. base_path d = path) (distributions (db s)),
      s\<lparr>queries := queries s @ [Query_AnsibleDistribution_get path]\<rparr>)"

text \<open>\<open>CollectionVersion.objects.filter(pk__in=repo.latest_version().content)\<close>\<close>

definition CollectionVersion_filter_content ::
    "nat \<Rightarrow> state \<Rightarrow> collection_version list \<times> state" where
  "CollectionVersion_filter_content repo s =
     (filter (\<lambda>c. cv_pk c \<in> set (latest_version_content (db s) repo))
        (collection_versions (db s)),
      s\<lparr>queries := queries s @ [Query_CollectionVersion_filter_content repo]\<rparr>)"

subsection \<open>The view\<close>

text \<open>
  \<open>self.kwargs\<close>, the five strings the URL route captures. The static methods
  \<open>_add_content\<close> and \<open>_remove_content\<close> are \<open>add_content\<close> and \<open>remove_content\<close> here.
\<close>

record kwargs =
  namespace :: string
  name :: string
  version :: string
  source_path :: string
  dest_path :: string

definition add_content :: "collection_version \<Rightarrow> nat \<Rightarrow> state \<Rightarrow> task \<times> state" where
  "add_content collection_version repo s =
     (let locks = [repo];
          task_args = (cv_pk collection_version, repo)
      in enqueue_with_reservation add_content_to_repository locks task_args s)"

definition remove_content :: "collection_version \<Rightarrow> nat \<Rightarrow> state \<Rightarrow> task \<times> state" where
  "remove_content collection_version repo s =
     (let locks = [repo];
          task_args = (cv_pk collection_version, repo)
      in enqueue_with_reservation remove_content_from_repository locks task_args s)"

definition version_str :: "kwargs \<Rightarrow> string" where
  "version_str kw = join ''-'' [namespace kw, name kw, version kw]"

text \<open>
  The two \<open>.repository\<close> reads of lines 286 to 289 raise nothing when the distribution has
  no repository: they yield \<open>None\<close>, and the \<open>latest_version()\<close> call of line 293 or 297
  then fails with \<open>AttributeError\<close>.
\<close>

definition move_content :: "kwargs \<Rightarrow> state \<Rightarrow> (api_exception + response) \<times> state" where
  "move_content kw s0 =
     (case CollectionVersion_get (namespace kw) (name kw) (version kw) s0 of
        (DoesNotExist, s1) \<Rightarrow>
          (Inl (NotFound (''Collection '' @ version_str kw @ '' not found'')), s1)
      | (MultipleObjectsReturned, s1) \<Rightarrow> (Inl MultipleObjectsReturnedError, s1)
      | (Found collection_version, s1) \<Rightarrow>
     (case AnsibleDistribution_get (source_path kw) s1 of
        (DoesNotExist, s2) \<Rightarrow>
          (Inl (NotFound (''Repo(s) for moving collection '' @ version_str kw @ '' not found'')),
           s2)
      | (MultipleObjectsReturned, s2) \<Rightarrow> (Inl MultipleObjectsReturnedError, s2)
      | (Found src_dist, s2) \<Rightarrow>
     (case AnsibleDistribution_get (dest_path kw) s2 of
        (DoesNotExist, s3) \<Rightarrow>
          (Inl (NotFound (''Repo(s) for moving collection '' @ version_str kw @ '' not found'')),
           s3)
      | (MultipleObjectsReturned, s3) \<Rightarrow> (Inl MultipleObjectsReturnedError, s3)
      | (Found dest_dist, s3) \<Rightarrow>
     (case repository src_dist of
        None \<Rightarrow> (Inl AttributeError, s3)
      | Some src_repo \<Rightarrow>
     (let (src_versions, s4) = CollectionVersion_filter_content src_repo s3
      in if \<not> queryset_contains collection_version src_versions
         then (Inl (NotFound (''Collection '' @ version_str kw @ '' not found in source repo'')),
               s4)
         else
     (case repository dest_dist of
        None \<Rightarrow> (Inl AttributeError, s4)
      | Some dest_repo \<Rightarrow>
     (let (dest_versions, s5) = CollectionVersion_filter_content dest_repo s4
      in if queryset_contains collection_version dest_versions
         then (Inl (APIException
                 (''Collection '' @ version_str kw @ '' already found in destination repo'')),
               s5)
         else
     (let (add_task, s6) = add_content collection_version dest_repo s5;
          (remove_task, s7) = remove_content collection_version src_repo s6
      in (Inr \<lparr>data = [(''add_task_id'', task_id add_task),
                       (''remove_task_id'', task_id remove_task)],
               status = ''202''\<rparr>,
          s7)))))))))"

subsection \<open>Vocabulary of the properties\<close>

text \<open>
  What a request finds in a state: the content unit its key names, the distributions at
  its two paths, and whether a unit belongs to the current version of a repository.
\<close>

abbreviation unit_lookup :: "kwargs \<Rightarrow> state \<Rightarrow> collection_version lookup" where
  "unit_lookup kw s \<equiv> fst (CollectionVersion_get (namespace kw) (name kw) (version kw) s)"

abbreviation source_lookup :: "kwargs \<Rightarrow> state \<Rightarrow> ansible_distribution lookup" where
  "source_lookup kw s \<equiv> fst (AnsibleDistribution_get (source_path kw) s)"

abbreviation dest_lookup :: "kwargs \<Rightarrow> state \<Rightarrow> ansible_distribution lookup" where
  "dest_lookup kw s \<equiv> fst (AnsibleDistribution_get (dest_path kw) s)"

abbreviation in_current_version :: "state \<Rightarrow> collection_version \<Rightarrow> nat \<Rightarrow> bool" where
  "in_current_version s cv repo \<equiv> cv_pk cv \<in> set (latest_version_content (db s) repo)"

subsection \<open>A small hub\<close>

text \<open>
  One content unit, \<open>acme-tool-1.0.0\<close>, two repositories published at \<open>src\<close> and
  \<open>dst\<close>, and a distribution \<open>orphan\<close> that has no repository. In \<open>example_state\<close> the
  unit is in the current version of \<open>src\<close> only; in \<open>example_state_both\<close> a second version
  of \<open>dst\<close> holds it too.
\<close>

definition example_unit :: collection_version where
  "example_unit =
     \<lparr>cv_pk = 7, cv_namespace = ''acme'', cv_name = ''tool'', cv_version = ''1.0.0''\<rparr>"

definition example_db :: database where
  "example_db =
     \<lparr>collection_versions = [example_unit],
      distributions = [\<lparr>base_path = ''src'', repository = Some 1\<rparr>,
                       \<lparr>base_path = ''dst'', repository = Some 2\<rparr>,
                       \<lparr>base_path = ''orphan'', repository = None\<rparr>],
      version_history = (\<lambda>r. if r = 1 then [[7]] else [])\<rparr>"

definition example_state :: state where
  "example_state = \<lparr>db = example_db, tasks = [], queries = []\<rparr>"

definition example_state_both :: state where
  "example_state_both =
     \<lparr>db = example_db\<lparr>version_history :=
             (\<lambda>r. if r = 1 then [[7]] else if r = 2 then [[], [7]] else [])\<rparr>,
      tasks = [], queries = []\<rparr>"

definition example_kwargs :: kwargs where
  "example_kwargs =
     \<lparr>namespace = ''acme'', name = ''tool'', version = ''1.0.0'',
      source_path = ''src'', dest_path = ''dst''\<rparr>"

section \<open>Properties\<close>

subsection \<open>Lemmas on the queries and on strings\<close>

lemmas example_defs = example_unit_def example_db_def example_state_def example_kwargs_def
  example_state_both_def

lemmas query_defs = CollectionVersion_get_def AnsibleDistribution_get_def
  CollectionVersion_filter_content_def

lemmas eval_defs = query_defs objects_get_def latest_version_content_def

lemma objects_get_Found: "objects_get p rows = Found x \<Longrightarrow> x \<in> set rows \<and> p x"
  unfolding objects_get_def
  by (auto split: list.splits dest: filter_eq_ConsD)

text \<open>Under a unique constraint on \<open>f\<close>, a lookup by \<open>f\<close> never finds several rows.\<close>

lemma objects_get_unique:
  assumes "distinct (map f rows)"
  shows "objects_get (\<lambda>r. f r = k) rows \<noteq> MultipleObjectsReturned"
proof
  assume "objects_get (\<lambda>r. f r = k) rows = MultipleObjectsReturned"
  then obtain x y ys where eq: "filter (\<lambda>r. f r = k) rows = x # y # ys"
    by (auto simp: objects_get_def split: list.splits)
  from assms have "distinct (map f (filter (\<lambda>r. f r = k) rows))"
    by (rule distinct_map_filter)
  with eq have "f x \<noteq> f y" by simp
  moreover from eq
  have "x \<in> set (filter (\<lambda>r. f r = k) rows)" "y \<in> set (filter (\<lambda>r. f r = k) rows)"
    by simp_all
  then have "f x = k" "f y = k" by simp_all
  ultimately show False by simp
qed

lemma queryset_contains_filter:
  "x \<in> set rows \<Longrightarrow>
   queryset_contains x (filter (\<lambda>c. cv_pk c \<in> S) rows) = (cv_pk x \<in> S)"
  unfolding queryset_contains_def by auto

lemma str_contains_prefix: "str_contains sub (sub @ b)"
proof (cases "sub @ b")
  case Nil
  then show ?thesis by simp
next
  case (Cons c cs)
  have "take (length sub) (sub @ b) = sub" by simp
  with Cons show ?thesis by simp
qed

lemma str_contains_infix: "str_contains sub (a @ sub @ b)"
  by (induction a) (simp_all add: str_contains_prefix)

lemma version_str_eq: "version_str kw = namespace kw @ ''-'' @ name kw @ ''-'' @ version kw"
  by (simp add: version_str_def)

text \<open>The two details end differently, whatever the keys they embed.\<close>

lemma details_differ:
  "a @ '' not found in source repo'' \<noteq> b @ '' already found in destination repo''"
proof
  assume "a @ '' not found in source repo'' = b @ '' already found in destination repo''"
  then have "rev (a @ '' not found in source repo'')
      = rev (b @ '' already found in destination repo'')"
    by simp
  then have "take 11 (rev (a @ '' not found in source repo''))
      = take 11 (rev (b @ '' already found in destination repo''))"
    by simp
  then show False by simp
qed

text \<open>The status the view passes, as Django reads it.\<close>

lemma py_int_202: "py_int ''202'' = Some 202"
  by (simp add: py_int_def digit_value_def)

subsection \<open>The view, once the unit and both distributions are found\<close>

lemma move_content_found:
  assumes cv: "unit_lookup kw s = Found cv"
    and sd: "source_lookup kw s = Found sd"
    and dd: "dest_lookup kw s = Found dd"
  shows "move_content kw s =
    (case repository sd of
       None \<Rightarrow>
         (Inl AttributeError,
          s\<lparr>queries := queries s @
              [Query_CollectionVersion_get (namespace kw) (name kw) (version kw),
               Query_AnsibleDistribution_get (source_path kw),
               Query_AnsibleDistribution_get (dest_path kw)]\<rparr>)
     | Some src_repo \<Rightarrow>
    (if \<not> in_current_version s cv src_repo
     then (Inl (NotFound (''Collection '' @ version_str kw @ '' not found in source repo'')),
           s\<lparr>queries := queries s @
              [Query_CollectionVersion_get (namespace kw) (name kw) (version kw),
               Query_AnsibleDistribution_get (source_path kw),
               Query_AnsibleDistribution_get (dest_path kw),
               Query_CollectionVersion_filter_content src_repo]\<rparr>)
     else
    (case repository dd of
       None \<Rightarrow>
         (Inl AttributeError,
          s\<lparr>queries := queries s @
              [Query_CollectionVersion_get (namespace kw) (name kw) (version kw),
               Query_AnsibleDistribution_get (source_path kw),
               Query_AnsibleDistribution_get (dest_path kw),
               Query_CollectionVersion_filter_content src_repo]\<rparr>)
     | Some dest_repo \<Rightarrow>
    (if in_current_version s cv dest_repo
     then (Inl (APIException
                 (''Collection '' @ version_str kw @ '' already found in destination repo'')),
           s\<lparr>queries := queries s @
              [Query_CollectionVersion_get (namespace kw) (name kw) (version kw),
               Query_AnsibleDistribution_get (source_path kw),
               Query_AnsibleDistribution_get (dest_path kw),
               Query_CollectionVersion_filter_content src_repo,
               Query_CollectionVersion_filter_content dest_repo]\<rparr>)
     else (Inr \<lparr>data = [(''add_task_id'', length (tasks s)),
                        (''remove_task_id'', Suc (length (tasks s)))],
                status = ''202''\<rparr>,
           s\<lparr>queries := queries s @
              [Query_CollectionVersion_get (namespace kw) (name kw) (version kw),
               Query_AnsibleDistribution_get (source_path kw),
               Query_AnsibleDistribution_get (dest_path kw),
               Query_CollectionVersion_filter_content src_repo,
               Query_CollectionVersion_filter_content dest_repo],
             tasks := tasks s @
              [\<lparr>task_id = length (tasks s), task_func = add_content_to_repository,
                task_locks = [dest_repo], task_args = (cv_pk cv, dest_repo),
                task_progress = Waiting\<rparr>,
               \<lparr>task_id = Suc (length (tasks s)), task_func = remove_content_from_repository,
                task_locks = [src_repo], task_args = (cv_pk cv, src_repo),
                task_progress = Waiting\<rparr>]\<rparr>)))))"
proof -
  from cv have mem: "cv \<in> set (collection_versions (db s))"
    by (auto simp: CollectionVersion_get_def dest: objects_get_Found)
  show ?thesis
    using cv sd dd
    by (simp add: move_content_def query_defs queryset_contains_filter [OF mem]
        add_content_def remove_content_def enqueue_with_reservation_def Let_def
        split: option.splits)
qed

text \<open>The same, when both distributions have a repository.\<close>

lemma move_content_resolved:
  assumes "unit_lookup kw s = Found cv"
    and "source_lookup kw s = Found sd"
    and "dest_lookup kw s = Found dd"
    and "repository sd = Some src_repo"
    and "repository dd = Some dest_repo"
  shows "move_content kw s =
    (if \<not> in_current_version s cv src_repo
     then (Inl (NotFound (''Collection '' @ version_str kw @ '' not found in source repo'')),
           s\<lparr>queries := queries s @
              [Query_CollectionVersion_get (namespace kw) (name kw) (version kw),
               Query_AnsibleDistribution_get (source_path kw),
               Query_AnsibleDistribution_get (dest_path kw),
               Query_CollectionVersion_filter_content src_repo]\<rparr>)
     else if in_current_version s cv dest_repo
     then (Inl (APIException
                 (''Collection '' @ version_str kw @ '' already found in destination repo'')),
           s\<lparr>queries := queries s @
              [Query_CollectionVersion_get (namespace kw) (name kw) (version kw),
               Query_AnsibleDistribution_get (source_path kw),
               Query_AnsibleDistribution_get (dest_path kw),
               Query_CollectionVersion_filter_content src_repo,
               Query_CollectionVersion_filter_content dest_repo]\<rparr>)
     else (Inr \<lparr>data = [(''add_task_id'', length (tasks s)),
                        (''remove_task_id'', Suc (length (tasks s)))],
                status = ''202''\<rparr>,
           s\<lparr>queries := queries s @
              [Query_CollectionVersion_get (namespace kw) (name kw) (version kw),
               Query_AnsibleDistribution_get (source_path kw),
               Query_AnsibleDistribution_get (dest_path kw),
               Query_CollectionVersion_filter_content src_repo,
               Query_CollectionVersion_filter_content dest_repo],
             tasks := tasks s @
              [\<lparr>task_id = length (tasks s), task_func = add_content_to_repository,
                task_locks = [dest_repo], task_args = (cv_pk cv, dest_repo),
                task_progress = Waiting\<rparr>,
               \<lparr>task_id = Suc (length (tasks s)), task_func = remove_content_from_repository,
                task_locks = [src_repo], task_args = (cv_pk cv, src_repo),
                task_progress = Waiting\<rparr>]\<rparr>))"
  using assms(4,5) by (simp add: move_content_found [OF assms(1-3)])

lemma move_content_error_keeps_tasks:
  "isl (fst (move_content kw s)) \<Longrightarrow> tasks (snd (move_content kw s)) = tasks s"
  by (auto simp: move_content_def query_defs add_content_def remove_content_def
      enqueue_with_reservation_def Let_def split: lookup.splits option.splits if_splits)

lemma move_content_keeps_db: "db (snd (move_content kw s)) = db s"
  by (auto simp: move_content_def query_defs add_content_def remove_content_def
      enqueue_with_reservation_def Let_def split: lookup.splits option.splits if_splits)

text \<open>A request that is answered with a response has passed every check.\<close>

lemma move_content_success:
  assumes "fst (move_content kw s) = Inr resp"
  obtains cv sd dd src_repo dest_repo where "unit_lookup kw s = Found cv"
    and "source_lookup kw s = Found sd"
    and "dest_lookup kw s = Found dd"
    and "repository sd = Some src_repo"
    and "repository dd = Some dest_repo"
    and "in_current_version s cv src_repo"
    and "\<not> in_current_version s cv dest_repo"
proof (cases "unit_lookup kw s")
  case DoesNotExist
  with assms show ?thesis by (simp add: move_content_def query_defs)
next
  case MultipleObjectsReturned
  with assms show ?thesis by (simp add: move_content_def query_defs)
next
  case (Found cv)
  note u = this
  show ?thesis
  proof (cases "source_lookup kw s")
    case DoesNotExist
    with assms u show ?thesis by (simp add: move_content_def query_defs)
  next
    case MultipleObjectsReturned
    with assms u show ?thesis by (simp add: move_content_def query_defs)
  next
    case (Found sd)
    note sl = this
    show ?thesis
    proof (cases "dest_lookup kw s")
      case DoesNotExist
      with assms u sl show ?thesis by (simp add: move_content_def query_defs)
    next
      case MultipleObjectsReturned
      with assms u sl show ?thesis by (simp add: move_content_def query_defs)
    next
      case (Found dd)
      from assms obtain src_repo dest_repo where "repository sd = Some src_repo"
        and "repository dd = Some dest_repo"
        and "in_current_version s cv src_repo"
        and "\<not> in_current_version s cv dest_repo"
        by (auto simp: move_content_found [OF u sl Found] split: option.splits if_splits)
      with u sl Found show ?thesis by (rule that)
    qed
  qed
qed

subsection \<open>The small hub, evaluated\<close>

lemma example_lookups:
  "unit_lookup example_kwargs example_state = Found example_unit"
  "source_lookup example_kwargs example_state
     = Found \<lparr>base_path = ''src'', repository = Some 1\<rparr>"
  "dest_lookup example_kwargs example_state
     = Found \<lparr>base_path = ''dst'', repository = Some 2\<rparr>"
  by (simp_all add: example_defs eval_defs)

lemma example_repositories:
  "repository \<lparr>base_path = ''src'', repository = Some 1\<rparr> = Some 1"
  "repository \<lparr>base_path = ''dst'', repository = Some 2\<rparr> = Some 2"
  by simp_all

lemma example_membership:
  "in_current_version example_state example_unit 1"
  "\<not> in_current_version example_state example_unit 2"
  by (simp_all add: example_defs eval_defs)

subsection \<open>Failing requests\<close>

text \<open>
  C1. Whenever a precondition check of \<open>move_content\<close> fails (no content unit has the
  key, the source or the destination path has no distribution or its distribution has no
  repository, the unit is not in the current version of the source repository, or it is
  already in the current version of the destination repository), the request ends in an
  exception, the list of submitted tasks is the one the request started with, so
  \<open>enqueue_with_reservation\<close> was not called, and the database is unchanged.
\<close>

theorem precondition_failure_submits_nothing:
  assumes "unit_lookup kw s = DoesNotExist
    \<or> source_lookup kw s = DoesNotExist
    \<or> dest_lookup kw s = DoesNotExist
    \<or> (source_lookup kw s = Found sd \<and> repository sd = None)
    \<or> (dest_lookup kw s = Found dd \<and> repository dd = None)
    \<or> (unit_lookup kw s = Found cv \<and> source_lookup kw s = Found sd
        \<and> repository sd = Some src_repo \<and> \<not> in_current_version s cv src_repo)
    \<or> (unit_lookup kw s = Found cv \<and> dest_lookup kw s = Found dd
        \<and> repository dd = Some dest_repo \<and> in_current_version s cv dest_repo)"
  shows "isl (fst (move_content kw s))
    \<and> tasks (snd (move_content kw s)) = tasks s
    \<and> db (snd (move_content kw s)) = db s"
proof -
  have err: "isl (fst (move_content kw s))"
  proof (cases "fst (move_content kw s)")
    case (Inl e)
    then show ?thesis by simp
  next
    case (Inr resp)
    then obtain cv' sd' dd' src_repo' dest_repo' where "unit_lookup kw s = Found cv'"
      and "source_lookup kw s = Found sd'"
      and "dest_lookup kw s = Found dd'"
      and "repository sd' = Some src_repo'"
      and "repository dd' = Some dest_repo'"
      and "in_current_version s cv' src_repo'"
      and "\<not> in_current_version s cv' dest_repo'"
      by (rule move_content_success)
    with assms show ?thesis by auto
  qed
  then show ?thesis
    by (simp add: move_content_error_keeps_tasks move_content_keeps_db)
qed

theorem precondition_failure_submits_nothing_witness:
  "dest_lookup (example_kwargs\<lparr>dest_path := ''nowhere''\<rparr>) example_state = DoesNotExist
   \<and> isl (fst (move_content (example_kwargs\<lparr>dest_path := ''nowhere''\<rparr>) example_state))
   \<and> tasks (snd (move_content (example_kwargs\<lparr>dest_path := ''nowhere''\<rparr>) example_state)) = []"
proof -
  have h: "dest_lookup (example_kwargs\<lparr>dest_path := ''nowhere''\<rparr>) example_state
      = DoesNotExist"
    by (simp add: example_defs eval_defs)
  from h precondition_failure_submits_nothing
    [of "example_kwargs\<lparr>dest_path := ''nowhere''\<rparr>" example_state]
  show ?thesis by (simp add: example_state_def)
qed

text \<open>
  C6. When no content unit has the key \<open>(namespace, name, version)\<close>, the request ends in
  \<open>NotFound\<close> with the detail \<open>Collection namespace-name-version not found\<close>. The only
  query it has issued is the lookup of the unit: no distribution or repository was read,
  and no task was submitted.
\<close>

theorem unit_not_found:
  assumes "unit_lookup kw s = DoesNotExist"
  shows "move_content kw s =
    (Inl (NotFound (''Collection '' @ namespace kw @ ''-'' @ name kw @ ''-'' @ version kw
                    @ '' not found'')),
     s\<lparr>queries := queries s @
          [Query_CollectionVersion_get (namespace kw) (name kw) (version kw)]\<rparr>)"
  using assms by (simp add: move_content_def query_defs version_str_eq)

theorem unit_not_found_witness:
  "unit_lookup (example_kwargs\<lparr>version := ''2.0.0''\<rparr>) example_state = DoesNotExist
   \<and> move_content (example_kwargs\<lparr>version := ''2.0.0''\<rparr>) example_state =
     (Inl (NotFound ''Collection acme-tool-2.0.0 not found''),
      example_state\<lparr>queries := [Query_CollectionVersion_get ''acme'' ''tool'' ''2.0.0'']\<rparr>)"
proof -
  have h: "unit_lookup (example_kwargs\<lparr>version := ''2.0.0''\<rparr>) example_state = DoesNotExist"
    by (simp add: example_defs eval_defs)
  from h unit_not_found [OF h] show ?thesis
    by (simp add: example_kwargs_def example_state_def)
qed

text \<open>
  When the unit exists and the source path, the destination path or both have no
  distribution at all, the \<open>except ObjectDoesNotExist\<close> clause of line 290 answers
  \<open>NotFound\<close> with the detail \<open>Repo(s) for moving collection namespace-name-version not
  found\<close>, the same whichever path failed. \<open>base_path\<close> is the unique path of a
  distribution, so the distributions of a state have distinct paths.
\<close>

lemma no_distribution_not_found:
  assumes "unit_lookup kw s = Found cv"
    and "distinct (map base_path (distributions (db s)))"
    and "source_lookup kw s = DoesNotExist \<or> dest_lookup kw s = DoesNotExist"
  shows "fst (move_content kw s) =
      Inl (NotFound (''Repo(s) for moving collection '' @ namespace kw @ ''-'' @ name kw
                     @ ''-'' @ version kw @ '' not found''))
    \<and> tasks (snd (move_content kw s)) = tasks s"
proof -
  from assms(2) have "source_lookup kw s \<noteq> MultipleObjectsReturned"
    by (simp add: AnsibleDistribution_get_def objects_get_unique)
  with assms(1,3) show ?thesis
    by (cases "source_lookup kw s"; cases "dest_lookup kw s")
       (simp_all add: move_content_def query_defs version_str_eq)
qed

text \<open>
  C7 asks for that \<open>NotFound\<close> whenever the source or the destination path does not resolve
  to a repository. The view misses the path whose distribution exists and has no
  repository. The unit \<open>acme-tool-1.0.0\<close> exists and \<open>orphan\<close> is such a path:
  with \<open>orphan\<close> as the source, the request ends in \<open>AttributeError\<close>, answered with
  status 500, and not in \<open>NotFound\<close>; with \<open>orphan\<close> as the destination it ends in
  \<open>AttributeError\<close> when the unit is in the source, and in \<open>NotFound\<close> with the detail
  \<open>not found in source repo\<close> when it is not. So the error is not the one of line 291, and
  it depends on which of the two paths failed.
\<close>

theorem distribution_without_repository:
  "unit_lookup (example_kwargs\<lparr>source_path := ''orphan''\<rparr>) example_state = Found example_unit
   \<and> source_lookup (example_kwargs\<lparr>source_path := ''orphan''\<rparr>) example_state
       = Found \<lparr>base_path = ''orphan'', repository = None\<rparr>
   \<and> move_content (example_kwargs\<lparr>source_path := ''orphan''\<rparr>) example_state
       = (Inl AttributeError,
          example_state\<lparr>queries := [Query_CollectionVersion_get ''acme'' ''tool'' ''1.0.0'',
             Query_AnsibleDistribution_get ''orphan'', Query_AnsibleDistribution_get ''dst'']\<rparr>)
   \<and> exception_status_code AttributeError = 500
   \<and> \<not> is_NotFound AttributeError
   \<and> dest_lookup (example_kwargs\<lparr>dest_path := ''orphan''\<rparr>) example_state
       = Found \<lparr>base_path = ''orphan'', repository = None\<rparr>
   \<and> fst (move_content (example_kwargs\<lparr>dest_path := ''orphan''\<rparr>) example_state)
       = Inl AttributeError
   \<and> fst (move_content (example_kwargs\<lparr>source_path := ''dst'', dest_path := ''orphan''\<rparr>)
            example_state)
       = Inl (NotFound ''Collection acme-tool-1.0.0 not found in source repo'')"
proof -
  have u1: "unit_lookup (example_kwargs\<lparr>source_path := ''orphan''\<rparr>) example_state
      = Found example_unit"
    and s1: "source_lookup (example_kwargs\<lparr>source_path := ''orphan''\<rparr>) example_state
      = Found \<lparr>base_path = ''orphan'', repository = None\<rparr>"
    and d1: "dest_lookup (example_kwargs\<lparr>source_path := ''orphan''\<rparr>) example_state
      = Found \<lparr>base_path = ''dst'', repository = Some 2\<rparr>"
    by (simp_all add: example_defs eval_defs)
  have u2: "unit_lookup (example_kwargs\<lparr>dest_path := ''orphan''\<rparr>) example_state
      = Found example_unit"
    and s2: "source_lookup (example_kwargs\<lparr>dest_path := ''orphan''\<rparr>) example_state
      = Found \<lparr>base_path = ''src'', repository = Some 1\<rparr>"
    and d2: "dest_lookup (example_kwargs\<lparr>dest_path := ''orphan''\<rparr>) example_state
      = Found \<lparr>base_path = ''orphan'', repository = None\<rparr>"
    by (simp_all add: example_defs eval_defs)
  have u3: "unit_lookup (example_kwargs\<lparr>source_path := ''dst'', dest_path := ''orphan''\<rparr>)
      example_state = Found example_unit"
    and s3: "source_lookup (example_kwargs\<lparr>source_path := ''dst'', dest_path := ''orphan''\<rparr>)
      example_state = Found \<lparr>base_path = ''dst'', repository = Some 2\<rparr>"
    and d3: "dest_lookup (example_kwargs\<lparr>source_path := ''dst'', dest_path := ''orphan''\<rparr>)
      example_state = Found \<lparr>base_path = ''orphan'', repository = None\<rparr>"
    by (simp_all add: example_defs eval_defs)
  have m1: "move_content (example_kwargs\<lparr>source_path := ''orphan''\<rparr>) example_state
      = (Inl AttributeError,
          example_state\<lparr>queries := [Query_CollectionVersion_get ''acme'' ''tool'' ''1.0.0'',
             Query_AnsibleDistribution_get ''orphan'', Query_AnsibleDistribution_get ''dst'']\<rparr>)"
    by (simp add: move_content_found [OF u1 s1 d1])
       (simp add: example_kwargs_def example_state_def)
  have m2: "fst (move_content (example_kwargs\<lparr>dest_path := ''orphan''\<rparr>) example_state)
      = Inl AttributeError"
    using example_membership by (simp add: move_content_found [OF u2 s2 d2])
  have m3: "fst (move_content (example_kwargs\<lparr>source_path := ''dst'', dest_path := ''orphan''\<rparr>)
      example_state) = Inl (NotFound ''Collection acme-tool-1.0.0 not found in source repo'')"
    using example_membership
    by (simp add: move_content_found [OF u3 s3 d3] version_str_eq)
       (simp add: example_kwargs_def)
  show ?thesis
    using u1 s1 d2 m1 m2 m3 by simp
qed

text \<open>
  C8. When the unit exists and both paths resolve, but the unit is not in the current
  version of the source repository, the request ends in \<open>NotFound\<close> with a detail that
  contains \<open>not found in source repo\<close>. That detail differs from the detail of every
  conflict error, whatever key the conflict error embeds.
\<close>

theorem not_in_source:
  assumes "unit_lookup kw s = Found cv"
    and "source_lookup kw s = Found sd"
    and "dest_lookup kw s = Found dd"
    and "repository sd = Some src_repo"
    and "repository dd = Some dest_repo"
    and "\<not> in_current_version s cv src_repo"
  shows "\<exists>detail. fst (move_content kw s) = Inl (NotFound detail)
    \<and> detail = ''Collection '' @ namespace kw @ ''-'' @ name kw @ ''-'' @ version kw
                @ '' not found in source repo''
    \<and> str_contains ''not found in source repo'' detail
    \<and> (\<forall>key. detail \<noteq> ''Collection '' @ key @ '' already found in destination repo'')
    \<and> tasks (snd (move_content kw s)) = tasks s"
proof -
  have "str_contains ''not found in source repo''
      ((''Collection '' @ version_str kw @ '' '') @ ''not found in source repo'' @ [])"
    by (rule str_contains_infix)
  then have c: "str_contains ''not found in source repo''
      (''Collection '' @ version_str kw @ '' not found in source repo'')"
    by simp
  have d: "''Collection '' @ version_str kw @ '' not found in source repo''
      \<noteq> ''Collection '' @ key @ '' already found in destination repo''" for key
    using details_differ [of "''Collection '' @ version_str kw" "''Collection '' @ key"]
    by simp
  from assms(6) c d show ?thesis
    by (simp add: move_content_resolved [OF assms(1-5)] version_str_eq)
qed

theorem not_in_source_witness:
  "unit_lookup (example_kwargs\<lparr>source_path := ''dst'', dest_path := ''src''\<rparr>) example_state
      = Found example_unit
   \<and> source_lookup (example_kwargs\<lparr>source_path := ''dst'', dest_path := ''src''\<rparr>) example_state
      = Found \<lparr>base_path = ''dst'', repository = Some 2\<rparr>
   \<and> dest_lookup (example_kwargs\<lparr>source_path := ''dst'', dest_path := ''src''\<rparr>) example_state
      = Found \<lparr>base_path = ''src'', repository = Some 1\<rparr>
   \<and> \<not> in_current_version example_state example_unit 2
   \<and> fst (move_content (example_kwargs\<lparr>source_path := ''dst'', dest_path := ''src''\<rparr>)
        example_state)
      = Inl (NotFound ''Collection acme-tool-1.0.0 not found in source repo'')"
proof -
  have u: "unit_lookup (example_kwargs\<lparr>source_path := ''dst'', dest_path := ''src''\<rparr>)
      example_state = Found example_unit"
    by (simp add: example_defs eval_defs)
  have sd: "source_lookup (example_kwargs\<lparr>source_path := ''dst'', dest_path := ''src''\<rparr>)
      example_state = Found \<lparr>base_path = ''dst'', repository = Some 2\<rparr>"
    by (simp add: example_defs eval_defs)
  have dd: "dest_lookup (example_kwargs\<lparr>source_path := ''dst'', dest_path := ''src''\<rparr>)
      example_state = Found \<lparr>base_path = ''src'', repository = Some 1\<rparr>"
    by (simp add: example_defs eval_defs)
  note n = example_membership(2)
  from u sd dd n not_in_source [OF u sd dd example_repositories(2,1) n] show ?thesis
    by (simp add: example_kwargs_def)
qed

text \<open>
  The conflict error is not a 4xx client error: with the unit in the current versions of
  both \<open>src\<close> and \<open>dst\<close>, the request ends in \<open>APIException\<close>, whose status is 500,
  a server error.
\<close>

theorem already_in_destination_counterexample:
  "unit_lookup example_kwargs example_state_both = Found example_unit
   \<and> source_lookup example_kwargs example_state_both
       = Found \<lparr>base_path = ''src'', repository = Some 1\<rparr>
   \<and> dest_lookup example_kwargs example_state_both
       = Found \<lparr>base_path = ''dst'', repository = Some 2\<rparr>
   \<and> in_current_version example_state_both example_unit 1
   \<and> in_current_version example_state_both example_unit 2
   \<and> fst (move_content example_kwargs example_state_both) =
       Inl (APIException ''Collection acme-tool-1.0.0 already found in destination repo'')
   \<and> \<not> (400 \<le> exception_status_code
               (APIException ''Collection acme-tool-1.0.0 already found in destination repo'')
        \<and> exception_status_code
               (APIException ''Collection acme-tool-1.0.0 already found in destination repo'')
            < 500)"
proof -
  have u: "unit_lookup example_kwargs example_state_both = Found example_unit"
    by (simp add: example_defs eval_defs)
  have sd: "source_lookup example_kwargs example_state_both
      = Found \<lparr>base_path = ''src'', repository = Some 1\<rparr>"
    by (simp add: example_defs eval_defs)
  have dd: "dest_lookup example_kwargs example_state_both
      = Found \<lparr>base_path = ''dst'', repository = Some 2\<rparr>"
    by (simp add: example_defs eval_defs)
  have i1: "in_current_version example_state_both example_unit 1"
    by (simp add: example_defs eval_defs)
  have i2: "in_current_version example_state_both example_unit 2"
    by (simp add: example_defs eval_defs)
  have m: "fst (move_content example_kwargs example_state_both) =
       Inl (APIException ''Collection acme-tool-1.0.0 already found in destination repo'')"
    using i1 i2
    by (simp add: move_content_resolved [OF u sd dd example_repositories] version_str_eq)
       (simp add: example_kwargs_def)
  show ?thesis
    using u sd dd i1 i2 m by simp
qed

text \<open>
  C3, amended. When the unit exists, both paths resolve, and the unit is in the current
  versions of both the source and the destination repository, the request ends in
  \<open>APIException\<close>, a kind of exception distinct from \<open>NotFound\<close> that is answered with
  status 500; its detail contains \<open>already found in destination repo\<close>, and no task is
  submitted.
\<close>

theorem already_in_destination:
  assumes "unit_lookup kw s = Found cv"
    and "source_lookup kw s = Found sd"
    and "dest_lookup kw s = Found dd"
    and "repository sd = Some src_repo"
    and "repository dd = Some dest_repo"
    and "in_current_version s cv src_repo"
    and "in_current_version s cv dest_repo"
  shows "\<exists>detail. fst (move_content kw s) = Inl (APIException detail)
      \<and> \<not> is_NotFound (APIException detail)
      \<and> exception_status_code (APIException detail) = 500
      \<and> detail = ''Collection '' @ namespace kw @ ''-'' @ name kw @ ''-'' @ version kw
                  @ '' already found in destination repo''
      \<and> str_contains ''already found in destination repo'' detail
      \<and> tasks (snd (move_content kw s)) = tasks s"
proof -
  have "str_contains ''already found in destination repo''
      ((''Collection '' @ version_str kw @ '' '') @ ''already found in destination repo'' @ [])"
    by (rule str_contains_infix)
  then have "str_contains ''already found in destination repo''
      (''Collection '' @ version_str kw @ '' already found in destination repo'')"
    by simp
  with assms(6,7) show ?thesis
    by (simp add: move_content_resolved [OF assms(1-5)] version_str_eq)
qed

theorem already_in_destination_witness:
  "unit_lookup example_kwargs example_state_both = Found example_unit
   \<and> source_lookup example_kwargs example_state_both
       = Found \<lparr>base_path = ''src'', repository = Some 1\<rparr>
   \<and> dest_lookup example_kwargs example_state_both
       = Found \<lparr>base_path = ''dst'', repository = Some 2\<rparr>
   \<and> in_current_version example_state_both example_unit 1
   \<and> in_current_version example_state_both example_unit 2
   \<and> fst (move_content example_kwargs example_state_both) =
       Inl (APIException ''Collection acme-tool-1.0.0 already found in destination repo'')
   \<and> tasks (snd (move_content example_kwargs example_state_both)) = []"
proof -
  have u: "unit_lookup example_kwargs example_state_both = Found example_unit"
    by (simp add: example_defs eval_defs)
  have sd: "source_lookup example_kwargs example_state_both
      = Found \<lparr>base_path = ''src'', repository = Some 1\<rparr>"
    by (simp add: example_defs eval_defs)
  have dd: "dest_lookup example_kwargs example_state_both
      = Found \<lparr>base_path = ''dst'', repository = Some 2\<rparr>"
    by (simp add: example_defs eval_defs)
  have i1: "in_current_version example_state_both example_unit 1"
    by (simp add: example_defs eval_defs)
  have i2: "in_current_version example_state_both example_unit 2"
    by (simp add: example_defs eval_defs)
  from u sd dd i1 i2 already_in_destination [OF u sd dd example_repositories i1 i2]
  show ?thesis
    by (simp add: example_kwargs_def example_state_both_def)
qed

text \<open>
  C10. When both paths resolve to the same repository and the unit is in its current
  version, the request ends in the \<open>already found in destination repo\<close> error and no
  task is submitted.
\<close>

theorem self_move_rejected:
  assumes "unit_lookup kw s = Found cv"
    and "source_lookup kw s = Found sd"
    and "dest_lookup kw s = Found dd"
    and "repository sd = Some repo"
    and "repository dd = Some repo"
    and "in_current_version s cv repo"
  shows "fst (move_content kw s) =
      Inl (APIException (''Collection '' @ namespace kw @ ''-'' @ name kw @ ''-'' @ version kw
                         @ '' already found in destination repo''))
    \<and> tasks (snd (move_content kw s)) = tasks s"
  using assms(6) by (simp add: move_content_resolved [OF assms(1-5)] version_str_eq)

theorem self_move_rejected_witness:
  "unit_lookup (example_kwargs\<lparr>dest_path := ''src''\<rparr>) example_state = Found example_unit
   \<and> source_lookup (example_kwargs\<lparr>dest_path := ''src''\<rparr>) example_state
       = Found \<lparr>base_path = ''src'', repository = Some 1\<rparr>
   \<and> dest_lookup (example_kwargs\<lparr>dest_path := ''src''\<rparr>) example_state
       = Found \<lparr>base_path = ''src'', repository = Some 1\<rparr>
   \<and> in_current_version example_state example_unit 1
   \<and> fst (move_content (example_kwargs\<lparr>dest_path := ''src''\<rparr>) example_state) =
       Inl (APIException ''Collection acme-tool-1.0.0 already found in destination repo'')
   \<and> tasks (snd (move_content (example_kwargs\<lparr>dest_path := ''src''\<rparr>) example_state)) = []"
proof -
  have u: "unit_lookup (example_kwargs\<lparr>dest_path := ''src''\<rparr>) example_state
      = Found example_unit"
    by (simp add: example_defs eval_defs)
  have sd: "source_lookup (example_kwargs\<lparr>dest_path := ''src''\<rparr>) example_state
      = Found \<lparr>base_path = ''src'', repository = Some 1\<rparr>"
    by (simp add: example_defs eval_defs)
  have dd: "dest_lookup (example_kwargs\<lparr>dest_path := ''src''\<rparr>) example_state
      = Found \<lparr>base_path = ''src'', repository = Some 1\<rparr>"
    by (simp add: example_defs eval_defs)
  note i = example_membership(1)
  from u sd dd i
    self_move_rejected [OF u sd dd example_repositories(1) example_repositories(1) i]
  show ?thesis
    by (simp add: example_kwargs_def example_state_def)
qed

subsection \<open>Accepted requests\<close>

text \<open>
  C2. When every precondition check passes (the unit exists, both paths resolve to a
  repository, the unit is in the current version of the source repository and not in that
  of the destination repository), the request is answered with a response and has
  appended exactly two tasks to the queue: first the add task, which reserves the
  destination repository, then the remove task, which reserves the source repository. The
  queue lists tasks in the order of their submission, so the add task was submitted before
  the remove task.
\<close>

theorem add_submitted_before_remove:
  assumes "unit_lookup kw s = Found cv"
    and "source_lookup kw s = Found sd"
    and "dest_lookup kw s = Found dd"
    and "repository sd = Some src_repo"
    and "repository dd = Some dest_repo"
    and "in_current_version s cv src_repo"
    and "\<not> in_current_version s cv dest_repo"
  shows "(\<exists>resp. fst (move_content kw s) = Inr resp)
    \<and> (\<exists>add_task remove_task.
        tasks (snd (move_content kw s)) = tasks s @ [add_task, remove_task]
      \<and> task_func add_task = add_content_to_repository
      \<and> task_locks add_task = [dest_repo]
      \<and> task_func remove_task = remove_content_from_repository
      \<and> task_locks remove_task = [src_repo]
      \<and> task_id add_task < task_id remove_task)"
  using assms(6,7) by (simp add: move_content_resolved [OF assms(1-5)])

theorem add_submitted_before_remove_witness:
  "unit_lookup example_kwargs example_state = Found example_unit
   \<and> source_lookup example_kwargs example_state
       = Found \<lparr>base_path = ''src'', repository = Some 1\<rparr>
   \<and> dest_lookup example_kwargs example_state
       = Found \<lparr>base_path = ''dst'', repository = Some 2\<rparr>
   \<and> in_current_version example_state example_unit 1
   \<and> \<not> in_current_version example_state example_unit 2
   \<and> (\<exists>resp. fst (move_content example_kwargs example_state) = Inr resp)
   \<and> (\<exists>add_task remove_task.
        tasks (snd (move_content example_kwargs example_state)) = [add_task, remove_task]
      \<and> task_func add_task = add_content_to_repository
      \<and> task_locks add_task = [2]
      \<and> task_func remove_task = remove_content_from_repository
      \<and> task_locks remove_task = [1])"
  using example_lookups example_membership
    add_submitted_before_remove
      [OF example_lookups example_repositories(1,2) example_membership]
  by (auto simp: example_state_def)

text \<open>
  C4. When every precondition check passes, the request is answered with status 202 and a
  body of exactly two fields, \<open>add_task_id\<close> with the handle of the add task and
  \<open>remove_task_id\<close> with the handle of the remove task. The view returns without the
  jobs having run: both tasks are in the queue as they were submitted, and in the
  database it returns the unit is still in the current version of the source repository
  and not in that of the destination repository.
\<close>

theorem accepted_response:
  assumes "unit_lookup kw s = Found cv"
    and "source_lookup kw s = Found sd"
    and "dest_lookup kw s = Found dd"
    and "repository sd = Some src_repo"
    and "repository dd = Some dest_repo"
    and "in_current_version s cv src_repo"
    and "\<not> in_current_version s cv dest_repo"
  shows "\<exists>resp add_task remove_task.
      fst (move_content kw s) = Inr resp
    \<and> response_status_code resp = Some 202
    \<and> data resp = [(''add_task_id'', task_id add_task),
                    (''remove_task_id'', task_id remove_task)]
    \<and> tasks (snd (move_content kw s)) = tasks s @ [add_task, remove_task]
    \<and> task_func add_task = add_content_to_repository
    \<and> task_func remove_task = remove_content_from_repository
    \<and> task_progress add_task = Waiting
    \<and> task_progress remove_task = Waiting
    \<and> in_current_version (snd (move_content kw s)) cv src_repo
    \<and> \<not> in_current_version (snd (move_content kw s)) cv dest_repo"
  using assms(6,7)
  by (simp add: move_content_resolved [OF assms(1-5)] response_status_code_def py_int_202)

theorem accepted_response_witness:
  "unit_lookup example_kwargs example_state = Found example_unit
   \<and> source_lookup example_kwargs example_state
       = Found \<lparr>base_path = ''src'', repository = Some 1\<rparr>
   \<and> dest_lookup example_kwargs example_state
       = Found \<lparr>base_path = ''dst'', repository = Some 2\<rparr>
   \<and> in_current_version example_state example_unit 1
   \<and> \<not> in_current_version example_state example_unit 2
   \<and> (\<exists>resp. fst (move_content example_kwargs example_state) = Inr resp
        \<and> response_status_code resp = Some 202
        \<and> map fst (data resp) = [''add_task_id'', ''remove_task_id''])"
  using example_lookups example_membership
    accepted_response [OF example_lookups example_repositories(1,2) example_membership]
  by auto

text \<open>
  C5. When every precondition check passes, the add task is submitted with the
  destination repository as its only reservation and \<open>(unit pk, destination repository pk)\<close>
  as its arguments, and the remove task with the source repository as its only reservation
  and \<open>(unit pk, source repository pk)\<close> as its arguments. These two are all the request
  submits, and the two reservations have no repository in common.
\<close>

theorem separate_reservations:
  assumes "unit_lookup kw s = Found cv"
    and "source_lookup kw s = Found sd"
    and "dest_lookup kw s = Found dd"
    and "repository sd = Some src_repo"
    and "repository dd = Some dest_repo"
    and "in_current_version s cv src_repo"
    and "\<not> in_current_version s cv dest_repo"
  shows "tasks (snd (move_content kw s)) = tasks s @
      [\<lparr>task_id = length (tasks s), task_func = add_content_to_repository,
        task_locks = [dest_repo], task_args = (cv_pk cv, dest_repo),
        task_progress = Waiting\<rparr>,
       \<lparr>task_id = Suc (length (tasks s)), task_func = remove_content_from_repository,
        task_locks = [src_repo], task_args = (cv_pk cv, src_repo),
        task_progress = Waiting\<rparr>]
    \<and> set [dest_repo] \<inter> set [src_repo] = {}"
proof -
  from assms(6,7) have "src_repo \<noteq> dest_repo"
    by auto
  with assms(6,7) show ?thesis
    by (simp add: move_content_resolved [OF assms(1-5)])
qed

theorem separate_reservations_witness:
  "unit_lookup example_kwargs example_state = Found example_unit
   \<and> source_lookup example_kwargs example_state
       = Found \<lparr>base_path = ''src'', repository = Some 1\<rparr>
   \<and> dest_lookup example_kwargs example_state
       = Found \<lparr>base_path = ''dst'', repository = Some 2\<rparr>
   \<and> in_current_version example_state example_unit 1
   \<and> \<not> in_current_version example_state example_unit 2
   \<and> tasks (snd (move_content example_kwargs example_state)) =
      [\<lparr>task_id = 0, task_func = add_content_to_repository,
        task_locks = [2], task_args = (7, 2), task_progress = Waiting\<rparr>,
       \<lparr>task_id = 1, task_func = remove_content_from_repository,
        task_locks = [1], task_args = (7, 1), task_progress = Waiting\<rparr>]"
  using example_lookups example_membership
    separate_reservations [OF example_lookups example_repositories(1,2) example_membership]
  by (simp add: example_state_def example_unit_def)

subsection \<open>The database\<close>

text \<open>
  C9. Whether it fails or succeeds, \<open>move_content\<close> leaves the database as it found it:
  the version history and the current content of every repository are unchanged, and the
  tasks that were in the queue are still there, in the same order.
\<close>

theorem store_not_mutated:
  "db (snd (move_content kw s)) = db s
   \<and> (\<forall>r. version_history (db (snd (move_content kw s))) r = version_history (db s) r)
   \<and> (\<forall>r. latest_version_content (db (snd (move_content kw s))) r
          = latest_version_content (db s) r)
   \<and> take (length (tasks s)) (tasks (snd (move_content kw s))) = tasks s"
proof -
  have "take (length (tasks s)) (tasks (snd (move_content kw s))) = tasks s"
    by (auto simp: move_content_def query_defs add_content_def remove_content_def
        enqueue_with_reservation_def Let_def split: lookup.splits option.splits if_splits)
  then show ?thesis
    by (simp add: move_content_keeps_db)
qed

theorem store_not_mutated_witness:
  "db (snd (move_content example_kwargs example_state)) = example_db
   \<and> db (snd (move_content example_kwargs example_state_both)) = db example_state_both"
  using store_not_mutated [of example_kwargs example_state]
    store_not_mutated [of example_kwargs example_state_both]
  by (simp add: example_state_def)

end
